theory Spec2Isabelle
  imports Complex_Main
begin

section \<open>Discounting of cash flows: \<open>src/descuento.py\<close>\<close>

text \<open>
  The module has two functions: \<open>interpolar_factor_descuento\<close>, which reads a
  discount factor off a curve (exact match, flat extrapolation or log-linear
  interpolation), and \<open>calcular_valor_presente\<close>, which sums discounted cash flows
  under the method \<open>CURVA\<close> or \<open>YIELD\<close>.

  Conventions of the embedding:
  \<^item> A calendar date (\<open>datetime.date\<close>, \<open>pd.Timestamp\<close> at midnight) is its proleptic
    Gregorian ordinal, an \<open>int\<close>: comparison of dates is comparison of ordinals and
    \<open>(a - b).days\<close> is the difference of the ordinals. \<open>ymd2ord\<close> builds the ordinal
    of a year, month and day as the standard library does.
  \<^item> A Python \<open>float\<close> is a \<open>real\<close>: sums, products, quotients, \<open>exp\<close> and
    \<open>ln\<close> are exact, without rounding. The range of the floats is kept where it
    changes the control flow: the power \<open>**\<close> raises \<open>OverflowError\<close> beyond the
    largest float and gives \<open>0.0\<close> below the smallest, which makes the division
    that follows raise. Where the source computation leaves the real numbers
    (logarithm of a non-positive number, numpy division by zero, a complex power)
    the model stops with an outcome that names the place; what the source does
    with the \<open>nan\<close>, \<open>inf\<close> or complex value afterwards is not modelled.
    The set of values a float can take is \<open>es_float64\<close>; it is used where a
    property of the exact value cannot hold of any float.
  \<^item> Every \<open>raise\<close> of the source and every exception of the operations it uses
    (\<open>IndexError\<close> of \<open>iloc\<close> on an empty frame, \<open>ZeroDivisionError\<close>,
    \<open>TypeError\<close> of a comparison between a date and a number) is a value
    \<open>Inl e\<close> of the result type \<open>error + real\<close>.
\<close>

subsection \<open>Dates and day count\<close>

type_synonym fecha = int

definition is_leap :: "int \<Rightarrow> bool" where
  "is_leap y = (y mod 4 = 0 \<and> (y mod 100 \<noteq> 0 \<or> y mod 400 = 0))"

definition days_before_year :: "int \<Rightarrow> int" where
  "days_before_year year =
     (let y = year - 1 in y * 365 + y div 4 - y div 100 + y div 400)"

definition days_before_month :: "int \<Rightarrow> int \<Rightarrow> int" where
  "days_before_month year month =
     [0, 31, 59, 90, 120, 151, 181, 212, 243, 273, 304, 334] ! nat (month - 1)
       + (if 2 < month \<and> is_leap year then 1 else 0)"

text \<open>\<open>date(year, month, day).toordinal()\<close>, for a valid date.\<close>

definition ymd2ord :: "int \<Rightarrow> int \<Rightarrow> int \<Rightarrow> fecha" where
  "ymd2ord year month day = days_before_year year + days_before_month year month + day"

text \<open>The expression \<open>(d - fecha_valoracion).days / 365.0\<close>, written inline in the
  source at each of its five uses (base ACT/365).\<close>

definition plazo_act365 :: "fecha \<Rightarrow> fecha \<Rightarrow> real" where
  "plazo_act365 d fecha_valoracion = real_of_int (d - fecha_valoracion) / 365"

subsection \<open>Outcomes\<close>

text \<open>The five \<open>ValueError\<close>s of \<open>calcular_valor_presente\<close>, in source order.\<close>

datatype motivo =
    FaltaCurva              \<comment> \<open>line 149: df\_curva is None, method CURVA\<close>
  | FlujosNoSonFechas       \<comment> \<open>line 151: method CURVA with flujos\_como\_fechas false\<close>
  | FaltaFechaValoracionCurva  \<comment> \<open>line 153: fecha\_valoracion is None, method CURVA\<close>
  | FaltaYield              \<comment> \<open>line 182: yield\_anual is None, method YIELD\<close>
  | FaltaFechaValoracionYield  \<comment> \<open>line 189: fecha\_valoracion is None, dated flows\<close>
  | MetodoNoReconocido      \<comment> \<open>line 218: the final else\<close>

datatype error =
    ValueError motivo
  | IndexError          \<comment> \<open>\<open>iloc[0]\<close> or \<open>iloc[-1]\<close> on a frame with no rows\<close>
  | ZeroDivisionError   \<comment> \<open>Python float division or power\<close>
  | OverflowError       \<comment> \<open>Python float power with a result beyond the float range\<close>
  | TypeError           \<comment> \<open>comparison of a date with a number\<close>
  | LogNoPositivo       \<comment> \<open>\<open>np.log\<close> of a value \<open>\<le> 0\<close>: \<open>nan\<close> or \<open>-inf\<close>\<close>
  | DivisionNumpyCero   \<comment> \<open>numpy float division by zero: \<open>inf\<close> or \<open>nan\<close>\<close>
  | PotenciaCompleja    \<comment> \<open>negative base to a non-integer power: a complex number\<close>

type_synonym resultado = "error + real"

text \<open>\<open>np.log\<close> does not raise: at zero it gives \<open>-inf\<close> and below zero \<open>nan\<close>, with
  a warning, and the source computes on (a factor zero at the later point ends in
  \<open>exp (-inf)\<close>, that is \<open>0.0\<close>). The model stops at the logarithm.\<close>

definition np_log :: "real \<Rightarrow> resultado" where
  "np_log x = (if 0 < x then Inr (ln x) else Inl LogNoPositivo)"

definition np_div :: "real \<Rightarrow> real \<Rightarrow> resultado" where
  "np_div a b = (if b = 0 then Inl DivisionNumpyCero else Inr (a / b))"

definition py_div :: "real \<Rightarrow> real \<Rightarrow> resultado" where
  "py_div a b = (if b = 0 then Inl ZeroDivisionError else Inr (a / b))"

text \<open>The finite values of IEEE binary64, the type behind \<open>float\<close> and
  \<open>np.float64\<close>: a significand of at most 53 bits times a power of two between
  \<open>2\<^sup>-\<^sup>1\<^sup>0\<^sup>7\<^sup>4\<close> and \<open>2\<^sup>9\<^sup>7\<^sup>1\<close>.\<close>

definition es_float64 :: "real \<Rightarrow> bool" where
  "es_float64 x =
     (\<exists>m\<in>{- (2 ^ 53 - 1) .. 2 ^ 53 - 1 :: int}. \<exists>k\<in>{.. 1074 :: nat}.
        x = real_of_int m / 2 ^ k \<or> (k \<le> 971 \<and> x = real_of_int m * 2 ^ k))"

text \<open>The result of the C function \<open>pow\<close> as Python's \<open>float_pow\<close> passes it on,
  for a power rounded to nearest: from \<open>2\<^sup>1\<^sup>0\<^sup>2\<^sup>4 - 2\<^sup>9\<^sup>7\<^sup>0\<close> on the result is
  infinite and Python raises \<open>OverflowError\<close>; up to \<open>2\<^sup>-\<^sup>1\<^sup>0\<^sup>7\<^sup>5\<close> the result is
  \<open>0.0\<close>, which is returned.\<close>

definition rango_pow :: "real \<Rightarrow> resultado" where
  "rango_pow r =
     (if 2 ^ 1024 - 2 ^ 970 \<le> \<bar>r\<bar> then Inl OverflowError
      else if \<bar>r\<bar> \<le> 1 / 2 ^ 1075 then Inr 0
      else Inr r)"

text \<open>Python's \<open>x ** y\<close> on floats (\<open>float_pow\<close>): anything to the power zero is one,
  zero to a negative power raises, a negative base needs an integral exponent.\<close>

definition py_pow :: "real \<Rightarrow> real \<Rightarrow> resultado" where
  "py_pow x y =
     (if y = 0 then Inr 1
      else if x = 0 then (if y < 0 then Inl ZeroDivisionError else Inr 0)
      else if 0 < x then rango_pow (x powr y)
      else if y = real_of_int \<lfloor>y\<rfloor> then rango_pow (x powi \<lfloor>y\<rfloor>)
      else Inl PotenciaCompleja)"

subsection \<open>The curve and its interpolation\<close>

text \<open>The frame \<open>df_curva\<close>: its rows in order, each a \<open>Date\<close> and a \<open>Discount\<close>.\<close>

type_synonym curva = "(fecha \<times> real) list"

definition iloc_primero :: "curva \<Rightarrow> resultado" where
  "iloc_primero df = (case df of [] \<Rightarrow> Inl IndexError | p # _ \<Rightarrow> Inr (snd p))"

definition iloc_ultimo :: "curva \<Rightarrow> resultado" where
  "iloc_ultimo df = (if df = [] then Inl IndexError else Inr (snd (last df)))"

definition coincidencia :: "fecha \<Rightarrow> curva \<Rightarrow> curva" where
  "coincidencia fecha_flujo df_curva = filter (\<lambda>p. fst p = fecha_flujo) df_curva"

definition puntos_anteriores :: "fecha \<Rightarrow> curva \<Rightarrow> curva" where
  "puntos_anteriores fecha_flujo df_curva = filter (\<lambda>p. fst p < fecha_flujo) df_curva"

definition puntos_posteriores :: "fecha \<Rightarrow> curva \<Rightarrow> curva" where
  "puntos_posteriores fecha_flujo df_curva = filter (\<lambda>p. fecha_flujo < fst p) df_curva"

text \<open>\<open>punto_1 = puntos_anteriores.iloc[-1]\<close> and \<open>punto_2 = puntos_posteriores.iloc[0]\<close>;
  both are read only after the two frames were found non-empty.\<close>

definition punto_1 :: "fecha \<Rightarrow> curva \<Rightarrow> fecha \<times> real" where
  "punto_1 fecha_flujo df_curva = last (puntos_anteriores fecha_flujo df_curva)"

definition punto_2 :: "fecha \<Rightarrow> curva \<Rightarrow> fecha \<times> real" where
  "punto_2 fecha_flujo df_curva = hd (puntos_posteriores fecha_flujo df_curva)"

text \<open>Lines 56 to 77: the log-linear formula between two points.\<close>

definition log_lineal ::
  "fecha \<times> real \<Rightarrow> fecha \<times> real \<Rightarrow> fecha \<Rightarrow> fecha \<Rightarrow> resultado" where
  "log_lineal p1 p2 fecha_flujo fecha_valoracion =
     (let t1 = fst p1; t2 = fst p2; df1 = snd p1; df2 = snd p2;
          T1 = plazo_act365 t1 fecha_valoracion;
          T2 = plazo_act365 t2 fecha_valoracion;
          T_flujo = plazo_act365 fecha_flujo fecha_valoracion
      in case np_log df1 of Inl e \<Rightarrow> Inl e
         | Inr log_df1 \<Rightarrow>
       (case np_log df2 of Inl e \<Rightarrow> Inl e
         | Inr log_df2 \<Rightarrow>
       (case np_div ((log_df2 - log_df1) * (T_flujo - T1)) (T2 - T1) of Inl e \<Rightarrow> Inl e
         | Inr q \<Rightarrow> Inr (exp (log_df1 + q)))))"

definition interpolar_factor_descuento :: "fecha \<Rightarrow> curva \<Rightarrow> fecha \<Rightarrow> resultado" where
  "interpolar_factor_descuento fecha_flujo df_curva fecha_valoracion =
     (if coincidencia fecha_flujo df_curva \<noteq> []
      then iloc_primero (coincidencia fecha_flujo df_curva)
      else if puntos_anteriores fecha_flujo df_curva = [] then iloc_primero df_curva
      else if puntos_posteriores fecha_flujo df_curva = [] then iloc_ultimo df_curva
      else log_lineal (punto_1 fecha_flujo df_curva) (punto_2 fecha_flujo df_curva)
             fecha_flujo fecha_valoracion)"

subsection \<open>Present value\<close>

text \<open>The argument \<open>metodo\<close>: one of the two members of the enumeration, or any other
  value, which reaches the final \<open>else\<close>.\<close>

datatype MetodoDescuento = CURVA | YIELD | OtroValor

text \<open>The first component of a flow: a date, or a time in years.\<close>

datatype instante = Fecha fecha | Anos real

type_synonym flujos = "(instante \<times> real) list"

text \<open>Lines 157 to 175: the loop of method CURVA, with \<open>valor_presente\<close> as accumulator.\<close>

fun bucle_curva :: "curva \<Rightarrow> real \<Rightarrow> fecha \<Rightarrow> flujos \<Rightarrow> real \<Rightarrow> resultado" where
  "bucle_curva df_curva spread_credito fecha_valoracion [] valor_presente = Inr valor_presente"
| "bucle_curva df_curva spread_credito fecha_valoracion ((Anos t, monto_flujo) # resto) valor_presente =
     Inl TypeError"
| "bucle_curva df_curva spread_credito fecha_valoracion ((Fecha fecha_flujo, monto_flujo) # resto) valor_presente =
     (if fecha_flujo < fecha_valoracion
      then bucle_curva df_curva spread_credito fecha_valoracion resto valor_presente
      else case interpolar_factor_descuento fecha_flujo df_curva fecha_valoracion of
             Inl e \<Rightarrow> Inl e
           | Inr df_curva_flujo \<Rightarrow>
               (let plazo_anos = plazo_act365 fecha_flujo fecha_valoracion;
                    factor_descuento_ajustado = df_curva_flujo * exp (- spread_credito * plazo_anos)
                in bucle_curva df_curva spread_credito fecha_valoracion resto
                     (valor_presente + monto_flujo * factor_descuento_ajustado)))"

text \<open>Lines 201 and 202 (and 212 and 213): one discounted flow of method YIELD.\<close>

definition descontar_yield :: "real \<Rightarrow> int \<Rightarrow> real \<Rightarrow> real \<Rightarrow> resultado" where
  "descontar_yield yield_anual frecuencia tiempo_anos monto_flujo =
     (case py_div yield_anual (real_of_int frecuencia) of Inl e \<Rightarrow> Inl e
      | Inr yf \<Rightarrow>
     (case py_pow (1 + yf) (tiempo_anos * real_of_int frecuencia) of Inl e \<Rightarrow> Inl e
      | Inr factor_descuento \<Rightarrow> py_div monto_flujo factor_descuento))"

text \<open>Lines 191 to 202: the loop of method YIELD over dated flows.\<close>

fun bucle_yield_fechas :: "real \<Rightarrow> int \<Rightarrow> fecha \<Rightarrow> flujos \<Rightarrow> real \<Rightarrow> resultado" where
  "bucle_yield_fechas yield_anual frecuencia fecha_valoracion [] valor_presente = Inr valor_presente"
| "bucle_yield_fechas yield_anual frecuencia fecha_valoracion ((Anos t, monto_flujo) # resto) valor_presente =
     Inl TypeError"
| "bucle_yield_fechas yield_anual frecuencia fecha_valoracion ((Fecha fecha_flujo, monto_flujo) # resto) valor_presente =
     (if fecha_flujo < fecha_valoracion
      then bucle_yield_fechas yield_anual frecuencia fecha_valoracion resto valor_presente
      else case descontar_yield yield_anual frecuencia
                  (plazo_act365 fecha_flujo fecha_valoracion) monto_flujo of
             Inl e \<Rightarrow> Inl e
           | Inr c \<Rightarrow> bucle_yield_fechas yield_anual frecuencia fecha_valoracion resto
                        (valor_presente + c))"

text \<open>Lines 205 to 213: the loop of method YIELD over flows given as times.\<close>

fun bucle_yield_tiempos :: "real \<Rightarrow> int \<Rightarrow> flujos \<Rightarrow> real \<Rightarrow> resultado" where
  "bucle_yield_tiempos yield_anual frecuencia [] valor_presente = Inr valor_presente"
| "bucle_yield_tiempos yield_anual frecuencia ((Fecha d, monto_flujo) # resto) valor_presente =
     Inl TypeError"
| "bucle_yield_tiempos yield_anual frecuencia ((Anos tiempo_anos, monto_flujo) # resto) valor_presente =
     (if tiempo_anos \<le> 0
      then bucle_yield_tiempos yield_anual frecuencia resto valor_presente
      else case descontar_yield yield_anual frecuencia tiempo_anos monto_flujo of
             Inl e \<Rightarrow> Inl e
           | Inr c \<Rightarrow> bucle_yield_tiempos yield_anual frecuencia resto (valor_presente + c))"

definition calcular_valor_presente ::
  "flujos \<Rightarrow> fecha option \<Rightarrow> MetodoDescuento \<Rightarrow> curva option \<Rightarrow> real \<Rightarrow> real option
     \<Rightarrow> int \<Rightarrow> bool \<Rightarrow> resultado" where
  "calcular_valor_presente flujos_caja fecha_valoracion metodo df_curva spread_credito
       yield_anual frecuencia flujos_como_fechas =
     (case metodo of
        CURVA \<Rightarrow>
          (case df_curva of None \<Rightarrow> Inl (ValueError FaltaCurva)
           | Some curva \<Rightarrow>
             if \<not> flujos_como_fechas then Inl (ValueError FlujosNoSonFechas)
             else (case fecha_valoracion of
                     None \<Rightarrow> Inl (ValueError FaltaFechaValoracionCurva)
                   | Some fv \<Rightarrow> bucle_curva curva spread_credito fv flujos_caja 0))
      | YIELD \<Rightarrow>
          (case yield_anual of None \<Rightarrow> Inl (ValueError FaltaYield)
           | Some y \<Rightarrow>
             if flujos_como_fechas
             then (case fecha_valoracion of
                     None \<Rightarrow> Inl (ValueError FaltaFechaValoracionYield)
                   | Some fv \<Rightarrow> bucle_yield_fechas y frecuencia fv flujos_caja 0)
             else bucle_yield_tiempos y frecuencia flujos_caja 0)
      | OtroValor \<Rightarrow> Inl (ValueError MetodoNoReconocido))"


subsection \<open>The power of the yield formula\<close>



section \<open>Properties of the interpolation\<close>

subsection \<open>The three frames and the two selected points\<close>

lemma interior_eq:
  assumes "coincidencia q c = []" "puntos_anteriores q c \<noteq> []" "puntos_posteriores q c \<noteq> []"
  shows "interpolar_factor_descuento q c v = log_lineal (punto_1 q c) (punto_2 q c) q v"
  using assms by (simp add: interpolar_factor_descuento_def)

lemma punto_1_props:
  assumes "puntos_anteriores q c \<noteq> []"
  shows "punto_1 q c \<in> set c" "fst (punto_1 q c) < q"
proof -
  have "punto_1 q c \<in> set (puntos_anteriores q c)"
    using assms by (simp add: punto_1_def)
  then show "punto_1 q c \<in> set c" "fst (punto_1 q c) < q"
    by (simp_all add: puntos_anteriores_def)
qed

lemma punto_2_props:
  assumes "puntos_posteriores q c \<noteq> []"
  shows "punto_2 q c \<in> set c" "q < fst (punto_2 q c)"
proof -
  have "punto_2 q c \<in> set (puntos_posteriores q c)"
    using assms by (simp add: punto_2_def)
  then show "punto_2 q c \<in> set c" "q < fst (punto_2 q c)"
    by (simp_all add: puntos_posteriores_def)
qed





text \<open>Between two neighbouring rows of a sorted frame, the rows before the query are
  exactly those up to the first neighbour and the rows after it start at the second.\<close>

lemma adyacentes:
  assumes s: "sorted_wrt (<) (map fst (xs @ p1 # p2 # ys))"
    and q: "fst p1 < q" "q < fst p2"
  shows "coincidencia q (xs @ p1 # p2 # ys) = []"
    and "puntos_anteriores q (xs @ p1 # p2 # ys) = xs @ [p1]"
    and "puntos_posteriores q (xs @ p1 # p2 # ys) = p2 # ys"
proof -
  from s have a: "\<forall>x\<in>set xs. fst x < fst p1" and b: "\<forall>y\<in>set ys. fst p2 < fst y"
    by (auto simp: sorted_wrt_append)
  from a q have xs: "\<forall>x\<in>set xs. fst x < q" by fastforce
  from b q have ys: "\<forall>y\<in>set ys. q < fst y" by fastforce
  have fx: "filter (\<lambda>p. fst p < q) xs = xs" "filter (\<lambda>p. q < fst p) xs = []"
    "filter (\<lambda>p. fst p = q) xs = []"
    using xs by (auto simp: filter_empty_conv filter_id_conv)
  have fy: "filter (\<lambda>p. fst p < q) ys = []" "filter (\<lambda>p. q < fst p) ys = ys"
    "filter (\<lambda>p. fst p = q) ys = []"
    using ys by (auto simp: filter_empty_conv filter_id_conv)
  show "coincidencia q (xs @ p1 # p2 # ys) = []"
    using q fx fy by (simp add: coincidencia_def)
  show "puntos_anteriores q (xs @ p1 # p2 # ys) = xs @ [p1]"
    using q fx fy by (simp add: puntos_anteriores_def)
  show "puntos_posteriores q (xs @ p1 # p2 # ys) = p2 # ys"
    using q fx fy by (simp add: puntos_posteriores_def)
qed

subsection \<open>The log-linear formula\<close>


lemma log_lineal_peso:
  assumes "0 < df1" "0 < df2" "t1 \<noteq> t2"
  shows "log_lineal (t1, df1) (t2, df2) q v =
     Inr (exp (ln df1 + (ln df2 - ln df1) * (real_of_int (q - t1) / real_of_int (t2 - t1))))"
  using assms
  by (simp add: log_lineal_def Let_def np_log_def np_div_def plazo_act365_def
      diff_divide_distrib[symmetric])

lemma interpolar_adyacentes:
  assumes s: "sorted_wrt (<) (map fst (xs @ (t1, df1) # (t2, df2) # ys))"
    and q: "t1 < q" "q < t2" and pos: "0 < df1" "0 < df2"
  shows "interpolar_factor_descuento q (xs @ (t1, df1) # (t2, df2) # ys) v =
     Inr (exp (ln df1 + (ln df2 - ln df1) * (real_of_int (q - t1) / real_of_int (t2 - t1))))"
proof -
  let ?c = "xs @ (t1, df1) # (t2, df2) # ys"
  have q': "fst (t1, df1) < q" "q < fst (t2, df2)" using q by simp_all
  note ad = adyacentes[OF s q']
  have "interpolar_factor_descuento q ?c v = log_lineal (punto_1 q ?c) (punto_2 q ?c) q v"
    by (rule interior_eq) (simp_all add: ad)
  also have "punto_1 q ?c = (t1, df1)" by (simp add: punto_1_def ad)
  also have "punto_2 q ?c = (t2, df2)" by (simp add: punto_2_def ad)
  finally show ?thesis using log_lineal_peso[OF pos, of t1 t2 q v] q by simp
qed

lemma exponente_entre:
  fixes L1 L2 w :: real
  assumes "L2 < L1" "0 < w" "w < 1"
  shows "L2 < L1 + (L2 - L1) * w" "L1 + (L2 - L1) * w < L1"
proof -
  have "(L1 - L2) * w < (L1 - L2) * 1"
    using assms by (intro mult_strict_left_mono) simp_all
  then show "L2 < L1 + (L2 - L1) * w" by (simp add: algebra_simps)
  have "0 < (L1 - L2) * w" using assms by simp
  then show "L1 + (L2 - L1) * w < L1" by (simp add: algebra_simps)
qed

lemma exponente_decrece:
  fixes L1 L2 w w' :: real
  assumes "L2 < L1" "w < w'"
  shows "L1 + (L2 - L1) * w' < L1 + (L2 - L1) * w"
proof -
  have "(L1 - L2) * w < (L1 - L2) * w'"
    using assms by (intro mult_strict_left_mono) simp_all
  then show ?thesis by (simp add: algebra_simps)
qed

subsection \<open>Interior interpolation\<close>



subsection \<open>Exact match and flat extrapolation\<close>

lemma coincidencia_distinct:
  assumes "distinct (map fst c)" and "(d, f) \<in> set c"
  shows "coincidencia d c = [(d, f)]"
  using assms unfolding coincidencia_def
  by (induction c) (auto simp: filter_empty_conv rev_image_eqI)

text \<open>
  Claim C2. If the query date is the date of a curve point, the function returns the
  factor stored at that point, unchanged: the factor of the first row with that date,
  which is the only one when the dates of the curve are distinct. If the query date is
  before every curve date it returns the factor of the first row, if it is after every
  curve date the factor of the last row. For a curve of a single point the result is
  that point's factor at every query date. None of this depends on the sign of the
  factors.
\<close>

theorem interpolar_coincidencia_y_extremos:
  "(distinct (map fst c) \<and> (d, f) \<in> set c \<longrightarrow> interpolar_factor_descuento d c v = Inr f)
 \<and> (d \<in> fst ` set c \<longrightarrow>
      (\<exists>g. (d, g) \<in> set c \<and> interpolar_factor_descuento d c v = Inr g))
 \<and> (c \<noteq> [] \<and> (\<forall>p\<in>set c. qa < fst p) \<longrightarrow>
      interpolar_factor_descuento qa c v = Inr (snd (hd c)))
 \<and> (c \<noteq> [] \<and> (\<forall>p\<in>set c. fst p < qp) \<longrightarrow>
      interpolar_factor_descuento qp c v = Inr (snd (last c)))
 \<and> interpolar_factor_descuento q [(d1, f1)] v = Inr f1"
proof (intro conjI impI)
  assume a: "distinct (map fst c) \<and> (d, f) \<in> set c"
  then have "coincidencia d c = [(d, f)]" by (simp add: coincidencia_distinct)
  then show "interpolar_factor_descuento d c v = Inr f"
    by (simp add: interpolar_factor_descuento_def iloc_primero_def)
next
  assume "d \<in> fst ` set c"
  then have ne: "coincidencia d c \<noteq> []"
    by (auto simp: coincidencia_def filter_empty_conv)
  then have "hd (coincidencia d c) \<in> set (coincidencia d c)" by simp
  then have "hd (coincidencia d c) \<in> set c" "fst (hd (coincidencia d c)) = d"
    by (auto simp: coincidencia_def)
  moreover have "interpolar_factor_descuento d c v = Inr (snd (hd (coincidencia d c)))"
    using ne by (simp add: interpolar_factor_descuento_def iloc_primero_def split: list.splits)
  ultimately show "\<exists>g. (d, g) \<in> set c \<and> interpolar_factor_descuento d c v = Inr g"
    by (metis prod.collapse)
next
  assume a: "c \<noteq> [] \<and> (\<forall>p\<in>set c. qa < fst p)"
  then have "coincidencia qa c = []"
    by (auto simp: coincidencia_def filter_empty_conv)
  moreover have "puntos_anteriores qa c = []" using a
    by (fastforce simp: puntos_anteriores_def filter_empty_conv)
  ultimately show "interpolar_factor_descuento qa c v = Inr (snd (hd c))" using a
    by (simp add: interpolar_factor_descuento_def iloc_primero_def split: list.splits)
next
  assume a: "c \<noteq> [] \<and> (\<forall>p\<in>set c. fst p < qp)"
  then have "coincidencia qp c = []"
    by (auto simp: coincidencia_def filter_empty_conv)
  moreover have "puntos_anteriores qp c \<noteq> []" using a
    by (cases c) (auto simp: puntos_anteriores_def)
  moreover have "puntos_posteriores qp c = []" using a
    by (fastforce simp: puntos_posteriores_def filter_empty_conv)
  ultimately show "interpolar_factor_descuento qp c v = Inr (snd (last c))" using a
    by (simp add: interpolar_factor_descuento_def iloc_ultimo_def)
next
  show "interpolar_factor_descuento q [(d1, f1)] v = Inr f1"
    by (simp add: interpolar_factor_descuento_def iloc_primero_def iloc_ultimo_def
        coincidencia_def puntos_anteriores_def puntos_posteriores_def)
qed

theorem interpolar_coincidencia_y_extremos_witness:
  "interpolar_factor_descuento 20 [(10, 99/100), (20, 95/100), (30, 9/10)] 0 = Inr (95/100)
 \<and> (\<exists>g. (20, g) \<in> set [(10 :: int, 99/100), (20, 95/100), (30, 9/10 :: real)]
        \<and> interpolar_factor_descuento 20 [(10, 99/100), (20, 95/100), (30, 9/10)] 0 = Inr g)
 \<and> interpolar_factor_descuento 5 [(10, 99/100), (20, 95/100), (30, 9/10)] 0 = Inr (99/100)
 \<and> interpolar_factor_descuento 31 [(10, 99/100), (20, 95/100), (30, 9/10)] 0 = Inr (9/10)
 \<and> interpolar_factor_descuento 5 [(10, 99/100)] 0 = Inr (99/100)"
proof -
  let ?c = "[(10 :: int, 99/100), (20, 95/100), (30, 9/10 :: real)]"
  note t = interpolar_coincidencia_y_extremos [of ?c 20 "95/100" 0 5 31 5 10 "99/100"]
  have h1: "distinct (map fst ?c) \<and> (20, 95/100) \<in> set ?c" by simp
  have h2: "20 \<in> fst ` set ?c" by simp
  have h3: "?c \<noteq> [] \<and> (\<forall>p\<in>set ?c. 5 < fst p)" by simp
  have h4: "?c \<noteq> [] \<and> (\<forall>p\<in>set ?c. fst p < 31)" by simp
  from t h1 have 1: "interpolar_factor_descuento 20 ?c 0 = Inr (95/100)" by blast
  from t h2 have 2: "\<exists>g. (20, g) \<in> set ?c \<and> interpolar_factor_descuento 20 ?c 0 = Inr g"
    by blast
  from t h3 have "interpolar_factor_descuento 5 ?c 0 = Inr (snd (hd ?c))" by blast
  then have 3: "interpolar_factor_descuento 5 ?c 0 = Inr (99/100)" by simp
  from t h4 have "interpolar_factor_descuento 31 ?c 0 = Inr (snd (last ?c))" by blast
  then have 4: "interpolar_factor_descuento 31 ?c 0 = Inr (9/10)" by simp
  from t have 5: "interpolar_factor_descuento 5 [(10, 99/100)] 0 = Inr (99/100)" by blast
  from 1 2 3 4 5 show ?thesis by blast
qed

subsection \<open>The interval of interpolation is never empty\<close>

text \<open>
  Claim C8. Whenever the interior branch is reached, that is, some curve date lies
  strictly before the query date and some strictly after, the selected dates satisfy
  \<open>t1 < t2\<close> as whole days. So the denominator \<open>T2 - T1\<close> is at least \<open>1 / 365\<close> and
  positive, and the function never ends in a division by zero. This holds for every
  frame, sorted or not: the two points are taken from rows on opposite sides of the
  query date.
\<close>

theorem intervalo_no_degenerado:
  assumes "\<exists>p\<in>set c. fst p < q" and "\<exists>p\<in>set c. q < fst p"
  shows "fst (punto_1 q c) < fst (punto_2 q c)
       \<and> 1 / 365 \<le> plazo_act365 (fst (punto_2 q c)) v - plazo_act365 (fst (punto_1 q c)) v
       \<and> 0 < plazo_act365 (fst (punto_2 q c)) v - plazo_act365 (fst (punto_1 q c)) v
       \<and> interpolar_factor_descuento q c v \<noteq> Inl DivisionNumpyCero
       \<and> interpolar_factor_descuento q c v \<noteq> Inl ZeroDivisionError"
proof -
  have an: "puntos_anteriores q c \<noteq> []" and po: "puntos_posteriores q c \<noteq> []"
    using assms by (auto simp: puntos_anteriores_def puntos_posteriores_def filter_empty_conv)
  have lt: "fst (punto_1 q c) < fst (punto_2 q c)"
    using punto_1_props(2)[OF an] punto_2_props(2)[OF po] by simp
  then have "1 \<le> real_of_int (fst (punto_2 q c) - fst (punto_1 q c))" by linarith
  then have d: "1 / 365 \<le> plazo_act365 (fst (punto_2 q c)) v - plazo_act365 (fst (punto_1 q c)) v"
    by (simp add: plazo_act365_def diff_divide_distrib[symmetric])
  then have d0: "0 < plazo_act365 (fst (punto_2 q c)) v - plazo_act365 (fst (punto_1 q c)) v"
    by linarith
  have ll: "log_lineal (punto_1 q c) (punto_2 q c) q v \<noteq> Inl DivisionNumpyCero
      \<and> log_lineal (punto_1 q c) (punto_2 q c) q v \<noteq> Inl ZeroDivisionError"
    using lt by (simp add: log_lineal_def Let_def np_log_def np_div_def plazo_act365_def)
  have "interpolar_factor_descuento q c v \<noteq> Inl DivisionNumpyCero"
    "interpolar_factor_descuento q c v \<noteq> Inl ZeroDivisionError"
    using ll an po
    by (simp_all add: interpolar_factor_descuento_def iloc_primero_def split: list.splits)
  with lt d d0 show ?thesis by simp
qed

theorem intervalo_no_degenerado_witness:
  "fst (punto_1 15 [(10, 99/100), (20, 95/100)]) < fst (punto_2 15 [(10, 99/100), (20, 95/100)])
 \<and> 1 / 365 \<le> plazo_act365 (fst (punto_2 15 [(10, 99/100), (20, 95/100)])) 3
              - plazo_act365 (fst (punto_1 15 [(10, 99/100), (20, 95/100)])) 3
 \<and> 0 < plazo_act365 (fst (punto_2 15 [(10, 99/100), (20, 95/100)])) 3
              - plazo_act365 (fst (punto_1 15 [(10, 99/100), (20, 95/100)])) 3
 \<and> interpolar_factor_descuento 15 [(10, 99/100), (20, 95/100)] 3 \<noteq> Inl DivisionNumpyCero
 \<and> interpolar_factor_descuento 15 [(10, 99/100), (20, 95/100)] 3 \<noteq> Inl ZeroDivisionError"
  by (rule intervalo_no_degenerado) simp_all

subsection \<open>Monotone interpolation\<close>

text \<open>Just below one the floats are \<open>2\<^sup>-\<^sup>5\<^sup>3\<close> apart: \<open>1 - 2\<^sup>-\<^sup>5\<^sup>3\<close> and \<open>1\<close> are floats and
  no float lies strictly between them.\<close>

lemma es_float64_uno: "es_float64 1"
  unfolding es_float64_def
  by (rule bexI[of _ 1], rule bexI[of _ 0]) simp_all

lemma es_float64_bajo_uno: "es_float64 (1 - 1 / 2 ^ 53)"
  unfolding es_float64_def
proof (rule bexI[of _ "2 ^ 53 - 1"], rule bexI[of _ 53])
  show "1 - 1 / 2 ^ 53 = real_of_int (2 ^ 53 - 1) / 2 ^ 53
      \<or> ((53 :: nat) \<le> 971 \<and> 1 - 1 / 2 ^ 53 = real_of_int (2 ^ 53 - 1) * 2 ^ 53)"
    by (simp add: field_simps)
qed simp_all

lemma sin_float64_entre:
  "\<not> (\<exists>r. es_float64 r \<and> 1 - 1 / 2 ^ 53 < r \<and> r < 1)"
proof
  assume "\<exists>r. es_float64 r \<and> 1 - 1 / 2 ^ 53 < r \<and> r < 1"
  then obtain r where f: "es_float64 r" and lo: "1 - 1 / 2 ^ 53 < r" and hi: "r < 1" by blast
  from f obtain m :: int and k :: nat where mm: "m \<in> {- (2 ^ 53 - 1) .. 2 ^ 53 - 1}"
    and r: "r = real_of_int m / 2 ^ k \<or> (k \<le> 971 \<and> r = real_of_int m * 2 ^ k)"
    unfolding es_float64_def by blast
  from mm have m: "m \<le> 2 ^ 53 - 1" by simp
  have pos: "0 < r" using lo by (rule less_trans[rotated]) simp
  have Z: False if "r = real_of_int n" for n
  proof -
    from pos hi that have "0 < n" "n < 1" by simp_all
    then show False by simp
  qed
  from r show False
  proof
    assume "k \<le> 971 \<and> r = real_of_int m * 2 ^ k"
    then have "r = real_of_int (m * 2 ^ k)" by simp
    then show False by (rule Z)
  next
    assume rd: "r = real_of_int m / 2 ^ k"
    show False
    proof (cases "k \<le> 53")
      case True
      define P :: real where "P = 2 ^ 53"
      have Ppos: "0 < P" by (simp add: P_def)
      have "P = 2 ^ (k + (53 - k))" using True by (simp add: P_def)
      then have Pk: "P = 2 ^ k * 2 ^ (53 - k)" by (simp only: power_add)
      have e: "r * P = real_of_int (m * 2 ^ (53 - k))" unfolding rd Pk by simp
      from lo have "1 - 1 / P < r" by (simp add: P_def)
      then have "P - 1 < r * P" using Ppos by (simp add: field_simps)
      moreover have "P - 1 = real_of_int (2 ^ 53 - 1)" by (simp add: P_def)
      ultimately have a: "real_of_int (2 ^ 53 - 1) < real_of_int (m * 2 ^ (53 - k))"
        unfolding e by simp
      from hi have "r * P < P" using Ppos by simp
      moreover have "P = real_of_int (2 ^ 53)" by (simp add: P_def)
      ultimately have b: "real_of_int (m * 2 ^ (53 - k)) < real_of_int (2 ^ 53)"
        unfolding e by simp
      from a b have "2 ^ 53 - 1 < m * 2 ^ (53 - k)" "m * 2 ^ (53 - k) < 2 ^ 53"
        by (simp_all only: of_int_less_iff)
      then show False by linarith
    next
      case False
      then have "54 \<le> k" by simp
      then have p: "(2 :: real) ^ 54 \<le> 2 ^ k" by (intro power_increasing) simp_all
      have mp: "0 < real_of_int m" using pos rd by (simp add: zero_less_divide_iff)
      have "r \<le> real_of_int m / 2 ^ 54" unfolding rd using p mp
        by (intro divide_left_mono) simp_all
      also have "\<dots> \<le> real_of_int (2 ^ 53 - 1) / 2 ^ 54"
        using m by (intro divide_right_mono) simp_all
      also have "\<dots> < 1 - 1 / 2 ^ 53" by simp
      finally show False using lo by simp
    qed
  qed
qed

lemma entre_pivotes:
  fixes df1 df2 :: real
  assumes "0 < df2" "df2 < df1" "t1 < q" "q < t2"
  shows "df2 < exp (ln df1 + (ln df2 - ln df1) * (real_of_int (q - t1) / real_of_int (t2 - t1)))"
    and "exp (ln df1 + (ln df2 - ln df1) * (real_of_int (q - t1) / real_of_int (t2 - t1))) < df1"
proof -
  let ?w = "real_of_int (q - t1) / real_of_int (t2 - t1)"
  have L: "ln df2 < ln df1" using assms(1,2) by simp
  have w: "0 < ?w" "?w < 1" using assms(3,4) by simp_all
  have "ln df2 < ln df1 + (ln df2 - ln df1) * ?w" "ln df1 + (ln df2 - ln df1) * ?w < ln df1"
    using exponente_entre[OF L w] by simp_all
  then have "exp (ln df2) < exp (ln df1 + (ln df2 - ln df1) * ?w)"
    "exp (ln df1 + (ln df2 - ln df1) * ?w) < exp (ln df1)" by simp_all
  then show "df2 < exp (ln df1 + (ln df2 - ln df1) * ?w)"
    and "exp (ln df1 + (ln df2 - ln df1) * ?w) < df1"
    using assms(1,2) by simp_all
qed

text \<open>
  Claim C9, in exact arithmetic. Let the curve be sorted by date with positive factors
  that decrease strictly from row to row, and let the query date lie strictly between
  the dates of two neighbouring rows \<open>(t1, df1)\<close> and \<open>(t2, df2)\<close>. Then the value of
  the log-linear formula, computed without rounding, lies strictly between \<open>df2\<close> and
  \<open>df1\<close>, and a later query date in the same interval gets a strictly smaller value.
\<close>

theorem interpolacion_monotona:
  assumes s: "sorted_wrt (<) (map fst c)" and dec: "sorted_wrt (>) (map snd c)"
    and pos: "\<forall>p\<in>set c. 0 < snd p"
    and c: "c = xs @ (t1, df1) # (t2, df2) # ys"
    and q: "t1 < q" "q < t2"
  shows "\<exists>r. interpolar_factor_descuento q c v = Inr r \<and> df2 < r \<and> r < df1
            \<and> (\<forall>q'. q < q' \<and> q' < t2 \<longrightarrow>
                  (\<exists>r'. interpolar_factor_descuento q' c v = Inr r' \<and> r' < r))"
proof -
  have p: "0 < df1" "0 < df2" using pos c by simp_all
  have lt: "df2 < df1" using dec c by (simp add: sorted_wrt_append)
  then have L: "ln df2 < ln df1" using p by simp
  have t: "t1 < t2" using q by simp
  define w where "w x = real_of_int (x - t1) / real_of_int (t2 - t1)" for x
  have val: "interpolar_factor_descuento x c v = Inr (exp (ln df1 + (ln df2 - ln df1) * w x))"
    if "t1 < x" "x < t2" for x
    using interpolar_adyacentes[OF s[unfolded c] that p] by (simp add: c w_def)
  have w01: "0 < w x \<and> w x < 1" if "t1 < x" "x < t2" for x
    using that t by (simp add: w_def)
  have wm: "w x < w y" if "x < y" for x y
    using that t by (simp add: w_def divide_strict_right_mono)
  let ?r = "exp (ln df1 + (ln df2 - ln df1) * w q)"
  have "ln df2 < ln df1 + (ln df2 - ln df1) * w q" "ln df1 + (ln df2 - ln df1) * w q < ln df1"
    using exponente_entre[OF L] w01[OF q] by simp_all
  then have "exp (ln df2) < ?r" "?r < exp (ln df1)" by simp_all
  then have b: "df2 < ?r" "?r < df1" using p by simp_all
  have m: "\<exists>r'. interpolar_factor_descuento q' c v = Inr r' \<and> r' < ?r"
    if "q < q' \<and> q' < t2" for q'
  proof -
    from that q have "t1 < q'" "q' < t2" by simp_all
    from val[OF this] exponente_decrece[OF L wm, of q q'] that show ?thesis by simp
  qed
  show ?thesis using val[OF q] b m by blast
qed

theorem interpolacion_monotona_witness:
  "\<exists>r. interpolar_factor_descuento 12 [(0, 1), (10, 9/10), (20, 8/10), (30, 7/10)] 0 = Inr r
      \<and> 8/10 < r \<and> r < 9/10
      \<and> (\<exists>r'. interpolar_factor_descuento 17 [(0, 1), (10, 9/10), (20, 8/10), (30, 7/10)] 0 = Inr r'
             \<and> r' < r)"
proof -
  have "\<exists>r. interpolar_factor_descuento 12 [(0, 1), (10, 9/10), (20, 8/10), (30, 7/10)] 0 = Inr r
      \<and> 8/10 < r \<and> r < 9/10
      \<and> (\<forall>q'. 12 < q' \<and> q' < 20 \<longrightarrow>
            (\<exists>r'. interpolar_factor_descuento q' [(0, 1), (10, 9/10), (20, 8/10), (30, 7/10)] 0 = Inr r'
                 \<and> r' < r))"
    by (rule interpolacion_monotona[where xs = "[(0, 1)]" and ys = "[(30, 7/10)]" and ?t1.0 = 10])
      simp_all
  then obtain r where r: "interpolar_factor_descuento 12 [(0, 1), (10, 9/10), (20, 8/10), (30, 7/10)] 0 = Inr r"
      "8/10 < r" "r < 9/10"
      "\<forall>q'. 12 < q' \<and> q' < 20 \<longrightarrow>
            (\<exists>r'. interpolar_factor_descuento q' [(0, 1), (10, 9/10), (20, 8/10), (30, 7/10)] 0 = Inr r'
                 \<and> r' < r)"
    by blast
  from r(4) have "\<exists>r'. interpolar_factor_descuento 17 [(0, 1), (10, 9/10), (20, 8/10), (30, 7/10)] 0 = Inr r'
                 \<and> r' < r" by simp
  with r(1,2,3) show ?thesis by blast
qed

text \<open>
  Claim C9, as the specification states it of the value the function returns, fails.
  The function returns a float. The curve with factor \<open>1\<close> at day 0 and factor
  \<open>1 - 2\<^sup>-\<^sup>5\<^sup>3\<close> at day 10 is sorted, its factors are positive floats and decrease
  strictly, and no float lies strictly between the two factors: whatever float the
  function returns at a day in between, it is not strictly between them. The value of
  the formula at day 5 is strictly between them and so is not a float.
\<close>

theorem interpolacion_monotona_counterexample:
  "sorted_wrt (<) (map fst [(0 :: int, 1 :: real), (10, 1 - 1 / 2 ^ 53)])
 \<and> sorted_wrt (>) (map snd [(0 :: int, 1 :: real), (10, 1 - 1 / 2 ^ 53)])
 \<and> 0 < (1 - 1 / 2 ^ 53 :: real)
 \<and> es_float64 1 \<and> es_float64 (1 - 1 / 2 ^ 53)
 \<and> \<not> (\<exists>r. es_float64 r \<and> 1 - 1 / 2 ^ 53 < r \<and> r < 1)
 \<and> interpolar_factor_descuento 5 [(0, 1), (10, 1 - 1 / 2 ^ 53)] 0
     = Inr (exp (ln 1 + (ln (1 - 1 / 2 ^ 53) - ln 1) * (real_of_int (5 - 0) / real_of_int (10 - 0))))
 \<and> \<not> es_float64 (exp (ln 1 + (ln (1 - 1 / 2 ^ 53) - ln 1)
                       * (real_of_int (5 - 0) / real_of_int (10 - 0))))"
proof -
  let ?d = "1 - 1 / 2 ^ 53 :: real"
  let ?x = "exp (ln 1 + (ln ?d - ln 1) * (real_of_int (5 - 0) / real_of_int (10 - 0)))"
  have d: "0 < ?d" "?d < 1" by simp_all
  have s: "sorted_wrt (<) (map fst ([] @ (0 :: int, 1 :: real) # (10, ?d) # []))" by simp
  have v: "interpolar_factor_descuento 5 ([] @ (0, 1) # (10, ?d) # []) 0 = Inr ?x"
    by (rule interpolar_adyacentes[OF s]) simp_all
  have "?d < ?x" "?x < 1" by (rule entre_pivotes[OF d]; simp)+
  with sin_float64_entre have nf: "\<not> es_float64 ?x" by blast
  have s2: "sorted_wrt (>) (map snd [(0 :: int, 1 :: real), (10, ?d)])" by simp
  from s s2 d(1) es_float64_uno es_float64_bajo_uno sin_float64_entre v nf
  show ?thesis by (simp only: append_Nil simp_thms)
qed

subsection \<open>The valuation date does not matter\<close>

text \<open>
  Claim C10. The value returned by the interpolation does not depend on the valuation
  date: the exact match and the flat extrapolation never read it, and in the interior
  branch the weight \<open>(T - T1) / (T2 - T1)\<close> is \<open>(q - t1).days / (t2 - t1).days\<close>
  whatever the valuation date is. Two calls that differ only in the valuation date
  return the same result, in the exact arithmetic of this model.
\<close>

theorem interpolar_independiente_de_fecha_valoracion:
  "interpolar_factor_descuento q c v = interpolar_factor_descuento q c v'
 \<and> (plazo_act365 q v - plazo_act365 t1 v) / (plazo_act365 t2 v - plazo_act365 t1 v)
     = real_of_int (q - t1) / real_of_int (t2 - t1)"
proof
  show "interpolar_factor_descuento q c v = interpolar_factor_descuento q c v'"
    by (simp add: interpolar_factor_descuento_def log_lineal_def Let_def plazo_act365_def
        np_div_def diff_divide_distrib[symmetric] split: sum.splits)
  show "(plazo_act365 q v - plazo_act365 t1 v) / (plazo_act365 t2 v - plazo_act365 t1 v)
     = real_of_int (q - t1) / real_of_int (t2 - t1)"
  proof -
    have a: "plazo_act365 q v - plazo_act365 t1 v = real_of_int (q - t1) / 365"
      and b: "plazo_act365 t2 v - plazo_act365 t1 v = real_of_int (t2 - t1) / 365"
      by (simp_all add: plazo_act365_def diff_divide_distrib)
    have k: "(A / 365) / (B / 365) = A / B" for A B :: real by simp
    show ?thesis unfolding a b by (rule k)
  qed
qed

section \<open>Properties of the present value\<close>

subsection \<open>The loops as sums\<close>

lemma bucle_curva_suma:
  assumes "\<forall>p\<in>set fl. v \<le> fst p \<longrightarrow> interpolar_factor_descuento (fst p) c v = Inr (DF (fst p))"
  shows "bucle_curva c s v (map (\<lambda>p. (Fecha (fst p), snd p)) fl) acc =
     Inr (acc + (\<Sum>p\<leftarrow>filter (\<lambda>p. v \<le> fst p) fl.
                   snd p * (DF (fst p) * exp (- s * (real_of_int (fst p - v) / 365)))))"
  using assms
proof (induction fl arbitrary: acc)
  case Nil
  then show ?case by simp
next
  case (Cons p fl)
  then have ih: "\<And>acc. bucle_curva c s v (map (\<lambda>p. (Fecha (fst p), snd p)) fl) acc =
     Inr (acc + (\<Sum>p\<leftarrow>filter (\<lambda>p. v \<le> fst p) fl.
                   snd p * (DF (fst p) * exp (- s * (real_of_int (fst p - v) / 365)))))" by simp
  show ?case
  proof (cases "fst p < v")
    case True
    then show ?thesis by (simp add: ih)
  next
    case False
    then have "interpolar_factor_descuento (fst p) c v = Inr (DF (fst p))"
      using Cons.prems by simp
    with False show ?thesis by (simp add: ih Let_def plazo_act365_def add.assoc)
  qed
qed



lemma descontar_yield_cero:
  "f \<noteq> 0 \<Longrightarrow> descontar_yield y f 0 a = Inr a"
  by (simp add: descontar_yield_def py_div_def py_pow_def)



text \<open>A loop over two lists in a row is the loop over the second list started from the
  value the first one leaves, unless the first one fails.\<close>

lemma bucle_curva_append:
  "bucle_curva c s v (xs @ ys) acc =
     (case bucle_curva c s v xs acc of Inl e \<Rightarrow> Inl e | Inr r \<Rightarrow> bucle_curva c s v ys r)"
  by (induction c s v xs acc rule: bucle_curva.induct) (simp_all add: Let_def split: sum.splits)

lemma bucle_yield_fechas_append:
  "bucle_yield_fechas y f v (xs @ ys) acc =
     (case bucle_yield_fechas y f v xs acc of Inl e \<Rightarrow> Inl e
      | Inr r \<Rightarrow> bucle_yield_fechas y f v ys r)"
  by (induction y f v xs acc rule: bucle_yield_fechas.induct) (simp_all split: sum.splits)

lemma bucle_yield_tiempos_append:
  "bucle_yield_tiempos y f (xs @ ys) acc =
     (case bucle_yield_tiempos y f xs acc of Inl e \<Rightarrow> Inl e
      | Inr r \<Rightarrow> bucle_yield_tiempos y f ys r)"
  by (induction y f xs acc rule: bucle_yield_tiempos.induct) (simp_all split: sum.splits)

subsection \<open>Method CURVA\<close>

text \<open>
  Claim C3. With method CURVA, a curve, dated flows and a valuation date, the function
  returns the sum, over the flows dated on or after the valuation date, of
  \<open>amount * DF * exp (- spread_credito * T)\<close>, where \<open>T\<close> is the number of days from
  the valuation date to the flow date divided by 365 and \<open>DF\<close> is what
  \<open>interpolar_factor_descuento\<close> returns for that date. Flows dated before the
  valuation date are not in the sum.
\<close>

theorem valor_presente_curva:
  assumes "\<forall>p\<in>set fl. v \<le> fst p \<longrightarrow> interpolar_factor_descuento (fst p) c v = Inr (DF (fst p))"
  shows "calcular_valor_presente (map (\<lambda>p. (Fecha (fst p), snd p)) fl) (Some v) CURVA (Some c)
           s yo f True =
     Inr (\<Sum>p\<leftarrow>filter (\<lambda>p. v \<le> fst p) fl.
            snd p * (DF (fst p) * exp (- s * (real_of_int (fst p - v) / 365))))"
proof -
  have "calcular_valor_presente (map (\<lambda>p. (Fecha (fst p), snd p)) fl) (Some v) CURVA (Some c)
           s yo f True = bucle_curva c s v (map (\<lambda>p. (Fecha (fst p), snd p)) fl) 0"
    by (simp add: calcular_valor_presente_def)
  also have "\<dots> = Inr (0 + (\<Sum>p\<leftarrow>filter (\<lambda>p. v \<le> fst p) fl.
            snd p * (DF (fst p) * exp (- s * (real_of_int (fst p - v) / 365)))))"
    by (rule bucle_curva_suma[OF assms])
  finally show ?thesis by (simp only: add.left_neutral)
qed

theorem valor_presente_curva_witness:
  "calcular_valor_presente
       [(Fecha 5, 100), (Fecha 10, 200), (Fecha 300, 1000), (Fecha 375, 300), (Fecha 400, 40)]
       (Some 10) CURVA (Some [(10, 1), (200, 1 / 2), (375, 1 / 2)]) 1 None 2 True
     = Inr (200 + 500 * exp (- (290 / 365)) + 150 * exp (- 1) + 20 * exp (- (390 / 365)))"
proof -
  let ?c = "[(10 :: int, 1 :: real), (200, 1 / 2), (375, 1 / 2)]"
  let ?fl = "[(5 :: int, 100 :: real), (10, 200), (300, 1000), (375, 300), (400, 40)]"
  let ?DF = "\<lambda>d :: int. if d = 10 then 1 else (1 / 2 :: real)"
  have i10: "interpolar_factor_descuento 10 ?c 10 = Inr 1"
    and i375: "interpolar_factor_descuento 375 ?c 10 = Inr (1 / 2)"
    and i400: "interpolar_factor_descuento 400 ?c 10 = Inr (1 / 2)"
    by (simp_all add: interpolar_factor_descuento_def coincidencia_def puntos_anteriores_def
        puntos_posteriores_def iloc_primero_def iloc_ultimo_def)
  have i300: "interpolar_factor_descuento 300 ?c 10 = Inr (1 / 2)"
    by (simp add: interpolar_factor_descuento_def coincidencia_def puntos_anteriores_def
        puntos_posteriores_def punto_1_def punto_2_def log_lineal_def np_log_def np_div_def
        plazo_act365_def)
  have h: "\<forall>p\<in>set ?fl. 10 \<le> fst p \<longrightarrow> interpolar_factor_descuento (fst p) ?c 10 = Inr (?DF (fst p))"
    by (simp add: i10 i300 i375 i400)
  from valor_presente_curva[OF h, of 1 None 2] show ?thesis by simp
qed

subsection \<open>Method YIELD\<close>




subsection \<open>Flows that are skipped\<close>

text \<open>
  Claim C5. A flow dated strictly before the valuation date (method CURVA, or method
  YIELD on dated flows), or with a time \<open>T \<le> 0\<close> (method YIELD on times), adds nothing
  to the present value whatever its amount: the result with the flow in the list is
  the result without it. The two cut-offs differ: a dated flow on the valuation date
  itself is counted, with \<open>T = 0\<close>, so it adds its whole amount under YIELD and its
  amount times the curve factor under CURVA, while a flow with time \<open>0\<close> is left out.
\<close>

theorem flujos_pasados_excluidos:
  "(d < v \<longrightarrow>
      calcular_valor_presente (xs @ (Fecha d, a) # ys) (Some v) CURVA co s yo f cf
        = calcular_valor_presente (xs @ ys) (Some v) CURVA co s yo f cf)
 \<and> (d < v \<longrightarrow>
      calcular_valor_presente (xs @ (Fecha d, a) # ys) (Some v) YIELD co s yo f True
        = calcular_valor_presente (xs @ ys) (Some v) YIELD co s yo f True)
 \<and> (t \<le> 0 \<longrightarrow>
      calcular_valor_presente (xt @ (Anos t, a) # yt) vo YIELD co s yo f False
        = calcular_valor_presente (xt @ yt) vo YIELD co s yo f False)
 \<and> plazo_act365 v v = 0
 \<and> (f \<noteq> 0 \<and> calcular_valor_presente xs (Some v) YIELD co s (Some y) f True = Inr pv \<longrightarrow>
      calcular_valor_presente (xs @ [(Fecha v, a)]) (Some v) YIELD co s (Some y) f True
        = Inr (pv + a))
 \<and> (interpolar_factor_descuento v c v = Inr dfv
      \<and> calcular_valor_presente xs (Some v) CURVA (Some c) s yo f True = Inr pc \<longrightarrow>
      calcular_valor_presente (xs @ [(Fecha v, a)]) (Some v) CURVA (Some c) s yo f True
        = Inr (pc + a * dfv))
 \<and> calcular_valor_presente (xt @ [(Anos 0, a)]) vo YIELD co s yo f False
        = calcular_valor_presente xt vo YIELD co s yo f False"
proof (intro conjI impI)
  assume "d < v"
  then show "calcular_valor_presente (xs @ (Fecha d, a) # ys) (Some v) CURVA co s yo f cf
        = calcular_valor_presente (xs @ ys) (Some v) CURVA co s yo f cf"
    by (simp add: calcular_valor_presente_def bucle_curva_append split: option.splits sum.splits)
next
  assume "d < v"
  then show "calcular_valor_presente (xs @ (Fecha d, a) # ys) (Some v) YIELD co s yo f True
        = calcular_valor_presente (xs @ ys) (Some v) YIELD co s yo f True"
    by (simp add: calcular_valor_presente_def bucle_yield_fechas_append
        split: option.splits sum.splits)
next
  assume "t \<le> 0"
  then show "calcular_valor_presente (xt @ (Anos t, a) # yt) vo YIELD co s yo f False
        = calcular_valor_presente (xt @ yt) vo YIELD co s yo f False"
    by (simp add: calcular_valor_presente_def bucle_yield_tiempos_append
        split: option.splits sum.splits)
next
  show "plazo_act365 v v = 0" by (simp add: plazo_act365_def)
next
  assume "f \<noteq> 0 \<and> calcular_valor_presente xs (Some v) YIELD co s (Some y) f True = Inr pv"
  then show "calcular_valor_presente (xs @ [(Fecha v, a)]) (Some v) YIELD co s (Some y) f True
        = Inr (pv + a)"
    by (simp add: calcular_valor_presente_def bucle_yield_fechas_append plazo_act365_def
        descontar_yield_cero)
next
  assume "interpolar_factor_descuento v c v = Inr dfv
      \<and> calcular_valor_presente xs (Some v) CURVA (Some c) s yo f True = Inr pc"
  then show "calcular_valor_presente (xs @ [(Fecha v, a)]) (Some v) CURVA (Some c) s yo f True
        = Inr (pc + a * dfv)"
    by (simp add: calcular_valor_presente_def bucle_curva_append plazo_act365_def)
next
  show "calcular_valor_presente (xt @ [(Anos 0, a)]) vo YIELD co s yo f False
        = calcular_valor_presente xt vo YIELD co s yo f False"
    by (simp add: calcular_valor_presente_def bucle_yield_tiempos_append
        split: option.splits sum.splits)
qed

theorem flujos_pasados_excluidos_witness:
  "calcular_valor_presente ([(Fecha 10, 100)] @ (Fecha (- 1), 50) # [(Fecha 20, 30)])
       (Some 0) CURVA (Some [(0, 1)]) 0 (Some 0) 2 True
     = calcular_valor_presente ([(Fecha 10, 100)] @ [(Fecha 20, 30)])
       (Some 0) CURVA (Some [(0, 1)]) 0 (Some 0) 2 True
 \<and> calcular_valor_presente ([(Fecha 10, 100)] @ (Fecha (- 1), 50) # [(Fecha 20, 30)])
       (Some 0) YIELD (Some [(0, 1)]) 0 (Some 0) 2 True
     = calcular_valor_presente ([(Fecha 10, 100)] @ [(Fecha 20, 30)])
       (Some 0) YIELD (Some [(0, 1)]) 0 (Some 0) 2 True
 \<and> calcular_valor_presente ([(Anos 1, 100)] @ (Anos (- 1), 50) # [(Anos 2, 30)])
       None YIELD (Some [(0, 1)]) 0 (Some 0) 2 False
     = calcular_valor_presente ([(Anos 1, 100)] @ [(Anos 2, 30)])
       None YIELD (Some [(0, 1)]) 0 (Some 0) 2 False
 \<and> calcular_valor_presente ([(Fecha 10, 100)] @ [(Fecha 0, 50)])
       (Some 0) YIELD (Some [(0, 1)]) 0 (Some 0) 2 True = Inr (100 + 50)
 \<and> calcular_valor_presente ([(Fecha 10, 100)] @ [(Fecha 0, 50)])
       (Some 0) CURVA (Some [(0, 1)]) 0 (Some 0) 2 True = Inr (100 + 50 * 1)
 \<and> calcular_valor_presente ([(Anos 1, 100)] @ [(Anos 0, 50)])
       None YIELD (Some [(0, 1)]) 0 (Some 0) 2 False
     = calcular_valor_presente [(Anos 1, 100)] None YIELD (Some [(0, 1)]) 0 (Some 0) 2 False"
proof -
  note t = flujos_pasados_excluidos
    [of "- 1" 0 "[(Fecha 10, 100)]" 50 "[(Fecha 20, 30)]" "Some [(0, 1)]" 0 "Some 0" 2 True
        "- 1" "[(Anos 1, 100)]" "[(Anos 2, 30)]" None 0 100 "[(0, 1)]" 1 100]
  have h1: "(- 1 :: int) < 0" and h2: "(- 1 :: real) \<le> 0" by simp_all
  have i: "interpolar_factor_descuento 10 [(0, 1)] 0 = Inr 1"
    "interpolar_factor_descuento 0 [(0, 1)] 0 = Inr 1"
    by (simp_all add: interpolar_factor_descuento_def coincidencia_def puntos_anteriores_def
        puntos_posteriores_def iloc_primero_def iloc_ultimo_def)
  have h3: "(2 :: int) \<noteq> 0
      \<and> calcular_valor_presente [(Fecha 10, 100)] (Some 0) YIELD (Some [(0, 1)]) 0 (Some 0) 2 True
          = Inr 100"
    by (simp add: calcular_valor_presente_def descontar_yield_def py_div_def py_pow_def
        rango_pow_def)
  have h4: "interpolar_factor_descuento 0 [(0, 1)] 0 = Inr 1
      \<and> calcular_valor_presente [(Fecha 10, 100)] (Some 0) CURVA (Some [(0, 1)]) 0 (Some 0) 2 True
          = Inr 100"
    by (simp add: calcular_valor_presente_def i)
  from t h1 h2 h3 h4 show ?thesis by blast
qed

subsection \<open>A worked case of method YIELD\<close>

lemma dias_2024: "ymd2ord 2025 1 1 - ymd2ord 2024 1 1 = 366"
  by (simp add: ymd2ord_def days_before_year_def days_before_month_def is_leap_def)

lemma plazo_2024: "plazo_act365 (ymd2ord 2025 1 1) (ymd2ord 2024 1 1) = 366 / 365"
  by (simp add: plazo_act365_def dias_2024)

text \<open>Bounds for the 365th root of \<open>1.02\<^sup>2\<close>, from Bernoulli's inequality.\<close>

lemma raiz_cotas:
  fixes u :: real
  assumes u: "u = (102 / 100) powr (2 / 365)"
  shows "1 + 106 / 1000000 < u" "u < 1 + 111 / 1000000"
proof -
  have up: "0 < u" using u by simp
  have "u ^ 365 = ((102 / 100) powr (2 / 365)) powr (real 365)"
    unfolding u by (subst powr_realpow) simp_all
  also have "\<dots> = (102 / 100) powr 2" by (simp add: powr_powr)
  also have "\<dots> = 10404 / 10000" by (simp add: power2_eq_square)
  finally have u365: "u ^ 365 = 10404 / 10000" .
  show "u < 1 + 111 / 1000000"
  proof (rule ccontr)
    assume "\<not> u < 1 + 111 / 1000000"
    then have "1 + 111 / 1000000 \<le> u" by simp
    then have "(1 + 111 / 1000000) ^ 365 \<le> u ^ 365" by (intro power_mono) simp_all
    moreover have "1 + real 365 * (111 / 1000000) \<le> (1 + 111 / 1000000) ^ 365"
      by (rule Bernoulli_inequality) simp
    ultimately show False using u365 by simp
  qed
  show "1 + 106 / 1000000 < u"
  proof (rule ccontr)
    assume "\<not> 1 + 106 / 1000000 < u"
    then have le: "u \<le> 1 + 106 / 1000000" by simp
    let ?k = "1 / (1 + 106 / 1000000) :: real"
    have "?k \<le> 1 / u" using le up by (intro divide_left_mono) simp_all
    then have "?k ^ 365 \<le> (1 / u) ^ 365" by (intro power_mono) simp_all
    moreover have "1 + real 365 * (?k - 1) \<le> (1 + (?k - 1)) ^ 365"
      by (rule Bernoulli_inequality) simp
    moreover have "(1 / u) ^ 365 = 10000 / 10404" by (simp add: power_one_over u365)
    ultimately show False by simp
  qed
qed

lemma vp_cotas:
  "96106 / 100 < 1000 / (102 / 100) powr (732 / 365 :: real)"
  "1000 / (102 / 100) powr (732 / 365 :: real) < 96107 / 100"
proof -
  define u :: real where "u = (102 / 100) powr (2 / 365)"
  note b = raiz_cotas[OF u_def]
  have "(102 / 100) powr (732 / 365 :: real) = (102 / 100) powr (2 + 2 / 365)" by simp
  also have "\<dots> = (102 / 100) powr 2 * u" unfolding u_def by (rule powr_add)
  also have "\<dots> = 10404 / 10000 * u" by (simp add: power2_eq_square)
  finally have e: "(102 / 100) powr (732 / 365 :: real) = 10404 / 10000 * u" .
  have up: "0 < u" using b by simp
  show "96106 / 100 < 1000 / (102 / 100) powr (732 / 365 :: real)"
    unfolding e using b up by (simp add: field_simps)
  show "1000 / (102 / 100) powr (732 / 365 :: real) < 96107 / 100"
    unfolding e using b up by (simp add: field_simps)
qed

lemma vp_2024:
  "calcular_valor_presente [(Fecha (ymd2ord 2025 1 1), 1000)] (Some (ymd2ord 2024 1 1)) YIELD
       None 0 (Some (4 / 100)) 2 True
     = Inr (1000 / (102 / 100) powr (732 / 365))"
proof -
  let ?F = "(51 / 50) powr (732 / 365 :: real)"
  have lt: "\<not> ymd2ord 2025 1 1 < ymd2ord 2024 1 1" using dias_2024 by linarith
  have F0: "0 < ?F" by simp
  have "1000 / ?F < 96107 / 100" "96106 / 100 < 1000 / ?F" using vp_cotas by simp_all
  then have b: "1 < ?F" "?F < 2" using F0 by (simp_all add: field_simps)
  have "(2 :: real) < 2 ^ 1024 - 2 ^ 970" "1 / 2 ^ 1075 < (1 :: real)" by simp_all
  with b have "\<bar>?F\<bar> < 2 ^ 1024 - 2 ^ 970" "1 / 2 ^ 1075 < \<bar>?F\<bar>" by linarith+
  then have r: "rango_pow ?F = Inr ?F" by (simp add: rango_pow_def)
  have d: "descontar_yield (1 / 25) 2 (366 / 365) 1000 = Inr (1000 / ?F)"
    using r by (simp add: descontar_yield_def py_div_def py_pow_def)
  show ?thesis using lt by (simp add: calcular_valor_presente_def plazo_2024 d)
qed

text \<open>
  Claim C6, as the code has it. For the single dated flow (2025-01-01, 1000) under
  method YIELD with annual yield 0.04, frequency 2 and valuation date 2024-01-01, the
  year fraction is \<open>T = 366 / 365\<close>, since 2024 is a leap year; the discount factor is
  \<open>1.02\<close> to the power \<open>732 / 365\<close>, and the function returns 1000 divided by it, a
  value between 961.06 and 961.07.
\<close>

theorem escenario_yield_2024:
  "plazo_act365 (ymd2ord 2025 1 1) (ymd2ord 2024 1 1) = 366 / 365
 \<and> calcular_valor_presente [(Fecha (ymd2ord 2025 1 1), 1000)] (Some (ymd2ord 2024 1 1)) YIELD
       None 0 (Some (4 / 100)) 2 True
     = Inr (1000 / (102 / 100) powr (732 / 365))
 \<and> 96106 / 100 < 1000 / (102 / 100) powr (732 / 365 :: real)
 \<and> 1000 / (102 / 100) powr (732 / 365 :: real) < 96107 / 100"
  using plazo_2024 vp_2024 vp_cotas by simp

text \<open>
  Claim C6, as the specification states it, fails: the year fraction of that flow is
  not \<open>1.0\<close>, the function does not return \<open>1000 / 1.02\<^sup>2\<close>, and the value it
  returns is more than 0.09 below 961.17.
\<close>

theorem escenario_yield_2024_counterexample:
  "plazo_act365 (ymd2ord 2025 1 1) (ymd2ord 2024 1 1) \<noteq> 1
 \<and> calcular_valor_presente [(Fecha (ymd2ord 2025 1 1), 1000)] (Some (ymd2ord 2024 1 1)) YIELD
       None 0 (Some (4 / 100)) 2 True
     \<noteq> Inr (1000 / (102 / 100) ^ 2)
 \<and> calcular_valor_presente [(Fecha (ymd2ord 2025 1 1), 1000)] (Some (ymd2ord 2024 1 1)) YIELD
       None 0 (Some (4 / 100)) 2 True
     = Inr (1000 / (102 / 100) powr (732 / 365))
 \<and> 1000 / (102 / 100) powr (732 / 365 :: real) < 96117 / 100 - 9 / 100"
proof -
  let ?pv = "1000 / (102 / 100) powr (732 / 365 :: real)"
  have "?pv < 1000 / (102 / 100) ^ 2"
    using vp_cotas(2) by (simp add: power2_eq_square)
  then have a: "?pv \<noteq> 1000 / (102 / 100) ^ 2" by linarith
  have b: "?pv < 96117 / 100 - 9 / 100" using vp_cotas(2) by simp
  have t: "plazo_act365 (ymd2ord 2025 1 1) (ymd2ord 2024 1 1) \<noteq> 1"
    unfolding plazo_2024 by simp
  show ?thesis unfolding vp_2024 using a b t by (simp only: sum.inject simp_thms)
qed

subsection \<open>Missing parameters\<close>

text \<open>
  Claim C7. The function ends in a \<open>ValueError\<close>, whatever the list of flows is and so
  before any flow is read, when the method is CURVA and the curve is missing, or the
  flows are not dated, or the valuation date is missing; when the method is YIELD and
  the yield is missing, or the flows are dated and the valuation date is missing; and
  when the method is neither of the two. The result is then the one for the empty list
  of flows: no contribution of a flow is computed.
\<close>

theorem errores_de_parametros:
  "(co = None \<or> \<not> como_fechas \<or> vo = None \<longrightarrow>
      (\<exists>m. calcular_valor_presente fl vo CURVA co s yo f como_fechas = Inl (ValueError m))
      \<and> calcular_valor_presente fl vo CURVA co s yo f como_fechas
          = calcular_valor_presente [] vo CURVA co s yo f como_fechas)
 \<and> (yo = None \<or> (como_fechas \<and> vo = None) \<longrightarrow>
      (\<exists>m. calcular_valor_presente fl vo YIELD co s yo f como_fechas = Inl (ValueError m))
      \<and> calcular_valor_presente fl vo YIELD co s yo f como_fechas
          = calcular_valor_presente [] vo YIELD co s yo f como_fechas)
 \<and> calcular_valor_presente fl vo OtroValor co s yo f como_fechas
      = Inl (ValueError MetodoNoReconocido)"
  by (auto simp: calcular_valor_presente_def split: option.splits)

theorem errores_de_parametros_witness:
  "calcular_valor_presente [(Fecha 5, 100)] (Some 0) CURVA None 0 None 2 True
     = Inl (ValueError FaltaCurva)
 \<and> calcular_valor_presente [(Fecha 5, 100)] (Some 0) YIELD None 0 None 2 True
     = Inl (ValueError FaltaYield)
 \<and> calcular_valor_presente [(Fecha 5, 100)] (Some 0) OtroValor None 0 None 2 True
     = Inl (ValueError MetodoNoReconocido)"
proof -
  note t = errores_de_parametros [of None True "Some 0" "[(Fecha 5, 100)]" 0 None 2]
  have e: "calcular_valor_presente [] (Some 0) CURVA None 0 None 2 True
             = Inl (ValueError FaltaCurva)"
    "calcular_valor_presente [] (Some 0) YIELD None 0 None 2 True
             = Inl (ValueError FaltaYield)"
    by (simp_all add: calcular_valor_presente_def)
  from t e show ?thesis by simp
qed

end
